theory Spec2Isabelle
  imports Complex_Main
begin

section \<open>Python values, exceptions and the external library\<close>

text \<open>
  The repository is two notebooks, \<^verbatim>\<open>chemistry/QubitMappings.ipynb\<close> and
  \<^verbatim>\<open>chemistry/ParticleHoleTransformation.ipynb\<close>. Their code cells are straight-line
  Python (two \<^verbatim>\<open>for\<close> loops over a three-element list) that imports names from
  Qiskit, calls them, and prints results. Nothing of Qiskit is part of the repository,
  so the library is a parameter of the model: every import, attribute access, call,
  subscript or subtraction on a library object is one operation handed to the library,
  which may change its own state (objects are mutable, the library keeps globals such as
  \<^verbatim>\<open>aqua_globals.random_seed\<close>) and either returns a value or raises.

  Python is dynamically typed, so there is one type of values. \<open>Obj\<close> is an instance,
  class, module or bound method owned by the library; the other constructors are the
  built-in values the notebooks handle themselves. A Python \<^verbatim>\<open>float\<close> is modelled
  by a real number and a NumPy array or tuple by \<open>Seq\<close>.
\<close>

datatype 'o val =
    Obj 'o
  | NoneV
  | Str string
  | Intg int
  | Num real
  | Cplx complex
  | Seq "'o val list"
  | Dict "(string \<times> 'o val) list"

text \<open>An exception is the library's own, or one the interpreter raises for a built-in
  operation of the notebook's code.\<close>

datatype ('o, 'e) exn =
    Library 'e
  | KeyError "'o val"
  | IndexError
  | TypeError
  | ValueError
  | AttributeError string

text \<open>The operations a notebook hands to the library.\<close>

datatype 'o op =
    ImportModule string
  | ImportFrom string string
  | GetAttr "'o val" string
  | SetAttr "'o val" string "'o val"
  | GetItem "'o val" "'o val"
  | Sub "'o val" "'o val"
  | Iterate "'o val"
  | Call "'o val" "'o val list" "(string \<times> 'o val) list"

type_synonym ('o, 'h, 'e) library = "'o op \<Rightarrow> 'h \<Rightarrow> 'h \<times> ('e + 'o val)"

text \<open>
  What a run leaves behind, in order: the operations handed to the library, the
  exceptions raised, and the lines printed. A printed line is kept as its format string
  and the values formatted into it (\<^verbatim>\<open>print(fmt.format(a, b))\<close> is
  \<open>Print fmt [a, b]\<close>), since the text of a formatted float is not modelled.
\<close>

datatype ('o, 'e) event =
    Invoke "'o op"
  | Raise "('o, 'e) exn"
  | Print string "'o val list"

type_synonym ('o, 'h, 'e) state = "'h \<times> ('o, 'e) event list"

type_synonym ('o, 'h, 'e, 'a) nb =
  "('o, 'h, 'e) state \<Rightarrow> ('o, 'h, 'e) state \<times> (('o, 'e) exn + 'a)"

subsection \<open>Sequencing\<close>

text \<open>Statements run in order; a raised exception ends the run, since neither
  notebook contains a \<^verbatim>\<open>try\<close> statement.\<close>

definition succeed :: "'a \<Rightarrow> ('o, 'h, 'e, 'a) nb" where
  "succeed x = (\<lambda>s. (s, Inr x))"

definition bind :: "('o, 'h, 'e, 'a) nb \<Rightarrow> ('a \<Rightarrow> ('o, 'h, 'e, 'b) nb) \<Rightarrow> ('o, 'h, 'e, 'b) nb" where
  "bind m f = (\<lambda>s. case m s of (s', Inl x) \<Rightarrow> (s', Inl x) | (s', Inr a) \<Rightarrow> f a s')"

definition invoke :: "('o, 'h, 'e) library \<Rightarrow> 'o op \<Rightarrow> ('o, 'h, 'e, 'o val) nb" where
  "invoke lib p = (\<lambda>(h, tr).
     case lib p h of
       (h', Inl e) \<Rightarrow> ((h', tr @ [Invoke p, Raise (Library e)]), Inl (Library e))
     | (h', Inr v) \<Rightarrow> ((h', tr @ [Invoke p]), Inr v))"

definition builtin :: "('o, 'e) exn + 'a \<Rightarrow> ('o, 'h, 'e, 'a) nb" where
  "builtin r = (\<lambda>(h, tr).
     case r of
       Inl x \<Rightarrow> ((h, tr @ [Raise x]), Inl x)
     | Inr a \<Rightarrow> ((h, tr), Inr a))"

definition py_print :: "string \<Rightarrow> 'o val list \<Rightarrow> ('o, 'h, 'e, unit) nb" where
  "py_print fmt args = (\<lambda>(h, tr). ((h, tr @ [Print fmt args]), Inr ()))"

fun for_each :: "('a \<Rightarrow> ('o, 'h, 'e, unit) nb) \<Rightarrow> 'a list \<Rightarrow> ('o, 'h, 'e, unit) nb" where
  "for_each body [] = succeed ()"
| "for_each body (x # xs) = bind (body x) (\<lambda>_. for_each body xs)"

subsection \<open>Built-in operations\<close>

text \<open>Subscripting a \<^verbatim>\<open>dict\<close>, a sequence or a string. A negative index counts from
  the end; a key that is a list or a dict is unhashable.\<close>

definition index_list :: "'a list \<Rightarrow> int \<Rightarrow> ('o, 'e) exn + 'a" where
  "index_list xs i =
     (if 0 \<le> i \<and> i < int (length xs) then Inr (xs ! nat i)
      else if i < 0 \<and> - int (length xs) \<le> i then Inr (xs ! nat (int (length xs) + i))
      else Inl IndexError)"

fun builtin_getitem :: "'o val \<Rightarrow> 'o val \<Rightarrow> ('o, 'e) exn + 'o val" where
  "builtin_getitem (Dict d) (Seq ks) = Inl TypeError"
| "builtin_getitem (Dict d) (Dict kd) = Inl TypeError"
| "builtin_getitem (Dict d) (Str k) =
     (case map_of d k of None \<Rightarrow> Inl (KeyError (Str k)) | Some v \<Rightarrow> Inr v)"
| "builtin_getitem (Dict d) k = Inl (KeyError k)"
| "builtin_getitem (Seq xs) (Intg i) = index_list xs i"
| "builtin_getitem (Str cs) (Intg i) = map_sum id (\<lambda>c. Str [c]) (index_list cs i)"
| "builtin_getitem _ _ = Inl TypeError"

text \<open>The only attribute the notebooks read from a built-in value is \<^verbatim>\<open>.real\<close>;
  none of the other names they use is an attribute of a built-in type.\<close>

fun builtin_getattr :: "'o val \<Rightarrow> string \<Rightarrow> ('o, 'e) exn + 'o val" where
  "builtin_getattr (Intg i) n = (if n = ''real'' then Inr (Intg i) else Inl (AttributeError n))"
| "builtin_getattr (Num x) n = (if n = ''real'' then Inr (Num x) else Inl (AttributeError n))"
| "builtin_getattr (Cplx z) n = (if n = ''real'' then Inr (Num (Re z)) else Inl (AttributeError n))"
| "builtin_getattr _ n = Inl (AttributeError n)"

text \<open>Subtraction on the numeric tower \<^verbatim>\<open>int\<close>, \<^verbatim>\<open>float\<close>, \<^verbatim>\<open>complex\<close>.\<close>

fun builtin_sub :: "'o val \<Rightarrow> 'o val \<Rightarrow> ('o, 'e) exn + 'o val" where
  "builtin_sub (Intg i) (Intg j) = Inr (Intg (i - j))"
| "builtin_sub (Intg i) (Num y) = Inr (Num (of_int i - y))"
| "builtin_sub (Num x) (Intg j) = Inr (Num (x - of_int j))"
| "builtin_sub (Num x) (Num y) = Inr (Num (x - y))"
| "builtin_sub (Cplx z) (Intg j) = Inr (Cplx (z - of_int j))"
| "builtin_sub (Cplx z) (Num y) = Inr (Cplx (z - of_real y))"
| "builtin_sub (Intg i) (Cplx w) = Inr (Cplx (of_int i - w))"
| "builtin_sub (Num x) (Cplx w) = Inr (Cplx (of_real x - w))"
| "builtin_sub (Cplx z) (Cplx w) = Inr (Cplx (z - w))"
| "builtin_sub _ _ = Inl TypeError"

text \<open>The items an iteration over a built-in value yields.\<close>

fun builtin_iter :: "'o val \<Rightarrow> ('o, 'e) exn + 'o val list" where
  "builtin_iter (Seq xs) = Inr xs"
| "builtin_iter (Str cs) = Inr (map (\<lambda>c. Str [c]) cs)"
| "builtin_iter (Dict d) = Inr (map Str (remdups (map fst d)))"
| "builtin_iter _ = Inl TypeError"

fun two_items :: "'a list \<Rightarrow> ('o, 'e) exn + 'a \<times> 'a" where
  "two_items [a, b] = Inr (a, b)"
| "two_items _ = Inl ValueError"

fun is_obj :: "'o val \<Rightarrow> bool" where
  "is_obj (Obj _) = True"
| "is_obj _ = False"

subsection \<open>Expressions\<close>

text \<open>An operation on a library object goes to the library; on a built-in value it
  is the interpreter's.\<close>

definition attr :: "('o, 'h, 'e) library \<Rightarrow> 'o val \<Rightarrow> string \<Rightarrow> ('o, 'h, 'e, 'o val) nb" where
  "attr lib v n = (if is_obj v then invoke lib (GetAttr v n) else builtin (builtin_getattr v n))"

definition set_attr :: "('o, 'h, 'e) library \<Rightarrow> 'o val \<Rightarrow> string \<Rightarrow> 'o val \<Rightarrow> ('o, 'h, 'e, 'o val) nb" where
  "set_attr lib v n x = (if is_obj v then invoke lib (SetAttr v n x) else builtin (Inl (AttributeError n)))"

definition subscript :: "('o, 'h, 'e) library \<Rightarrow> 'o val \<Rightarrow> 'o val \<Rightarrow> ('o, 'h, 'e, 'o val) nb" where
  "subscript lib v k = (if is_obj v then invoke lib (GetItem v k) else builtin (builtin_getitem v k))"

definition minus :: "('o, 'h, 'e) library \<Rightarrow> 'o val \<Rightarrow> 'o val \<Rightarrow> ('o, 'h, 'e, 'o val) nb" where
  "minus lib a b = (if is_obj a \<or> is_obj b then invoke lib (Sub a b) else builtin (builtin_sub a b))"

definition call :: "('o, 'h, 'e) library \<Rightarrow> 'o val \<Rightarrow> 'o val list \<Rightarrow> (string \<times> 'o val) list \<Rightarrow> ('o, 'h, 'e, 'o val) nb" where
  "call lib f args kwargs = (if is_obj f then invoke lib (Call f args kwargs) else builtin (Inl TypeError))"

definition call_method :: "('o, 'h, 'e) library \<Rightarrow> 'o val \<Rightarrow> string \<Rightarrow> 'o val list \<Rightarrow> (string \<times> 'o val) list \<Rightarrow> ('o, 'h, 'e, 'o val) nb" where
  "call_method lib v n args kwargs = bind (attr lib v n) (\<lambda>f. call lib f args kwargs)"

definition unpack2 :: "('o, 'h, 'e) library \<Rightarrow> 'o val \<Rightarrow> ('o, 'h, 'e, 'o val \<times> 'o val) nb" where
  "unpack2 lib v =
     bind (if is_obj v then bind (invoke lib (Iterate v)) (\<lambda>items. builtin (builtin_iter items))
           else builtin (builtin_iter v))
          (\<lambda>items. builtin (two_items items))"

section \<open>QubitMappings.ipynb\<close>

text \<open>
  Each code cell is a function of the library and of the names it uses; a Python
  variable is a bound variable of the same name. The literals \<^verbatim>\<open>0.00000001\<close> and
  \<^verbatim>\<open>10**-10\<close> are the reals \<open>mapping_threshold\<close> and \<open>chop_threshold\<close>.
\<close>

definition mapping_threshold :: real where
  "mapping_threshold = 1 / 10 ^ 8"

definition chop_threshold :: real where
  "chop_threshold = 1 / 10 ^ 10"

definition qm_driver :: "('o, 'h, 'e) library \<Rightarrow> 'o val \<Rightarrow> 'o val \<Rightarrow> 'o val \<Rightarrow> ('o, 'h, 'e, 'o val \<times> 'o val) nb" where
  "qm_driver lib PyQuanteDriver UnitsType BasisType =
     bind (attr lib UnitsType ''ANGSTROM'') (\<lambda>angstrom.
     bind (attr lib BasisType ''BSTO3G'') (\<lambda>bsto3g.
     bind (call lib PyQuanteDriver []
             [(''atoms'', Str ''H .0 .0 .0; H .0 .0 0.735''), (''units'', angstrom),
              (''charge'', Intg 0), (''multiplicity'', Intg 1), (''basis'', bsto3g)]) (\<lambda>driver.
     bind (call_method lib driver ''run'' [] []) (\<lambda>molecule.
     bind (attr lib molecule ''one_body_integrals'') (\<lambda>h1.
     bind (attr lib molecule ''two_body_integrals'') (\<lambda>h2.
     succeed (h1, h2)))))))"

definition mapping :: "('o, 'h, 'e) library \<Rightarrow> 'o val \<Rightarrow> string \<Rightarrow> ('o, 'h, 'e, 'o val) nb" where
  "mapping lib ferOp map_type =
     call_method lib ferOp ''mapping'' []
       [(''map_type'', Str map_type), (''threshold'', Num mapping_threshold)]"

definition qm_mappings :: "('o, 'h, 'e) library \<Rightarrow> 'o val \<Rightarrow> 'o val \<Rightarrow> 'o val \<Rightarrow> ('o, 'h, 'e, 'o val \<times> 'o val \<times> 'o val) nb" where
  "qm_mappings lib FermionicOperator h1 h2 =
     bind (call lib FermionicOperator [] [(''h1'', h1), (''h2'', h2)]) (\<lambda>ferOp.
     bind (mapping lib ferOp ''JORDAN_WIGNER'') (\<lambda>qubitOp_jw.
     bind (mapping lib ferOp ''PARITY'') (\<lambda>qubitOp_pa.
     bind (mapping lib ferOp ''BRAVYI_KITAEV'') (\<lambda>qubitOp_bk.
     succeed (qubitOp_jw, qubitOp_pa, qubitOp_bk)))))"

definition chop :: "('o, 'h, 'e) library \<Rightarrow> 'o val \<Rightarrow> ('o, 'h, 'e, 'o val) nb" where
  "chop lib qubit_op = call_method lib qubit_op ''chop'' [Num chop_threshold] []"

definition exact_energy :: "('o, 'h, 'e) library \<Rightarrow> 'o val \<Rightarrow> 'o val \<Rightarrow> ('o, 'h, 'e, 'o val) nb" where
  "exact_energy lib ExactEigensolver qubit_op =
     bind (call lib ExactEigensolver [qubit_op] [(''k'', Intg 1)]) (\<lambda>exact_eigensolver.
     call_method lib exact_eigensolver ''run'' [] [])"

definition qm_exact_body :: "('o, 'h, 'e) library \<Rightarrow> 'o val \<Rightarrow> 'o val \<times> string \<Rightarrow> ('o, 'h, 'e, unit) nb" where
  "qm_exact_body lib ExactEigensolver = (\<lambda>(qubit_op, name).
     bind (call_method lib qubit_op ''to_matrix'' [] []) (\<lambda>_.
     bind (chop lib qubit_op) (\<lambda>_.
     bind (py_print (CHR 0x0A # '' --- {} ---'') [Str name]) (\<lambda>_.
     bind (call_method lib qubit_op ''print_operators'' [] []) (\<lambda>text.
     bind (py_print ''{}'' [text]) (\<lambda>_.
     bind (exact_energy lib ExactEigensolver qubit_op) (\<lambda>ret.
     bind (subscript lib ret (Str ''energy'')) (\<lambda>energy.
     py_print ''The exact ground state energy using {} mapping is: {}'' [Str name, energy]))))))))"

text \<open>The set-up of the variational solver is the same in both notebooks but for the
  entanglement argument of \<^verbatim>\<open>RY\<close>.\<close>

definition run_vqe :: "('o, 'h, 'e) library \<Rightarrow> 'o val \<Rightarrow> 'o val \<Rightarrow> 'o val \<Rightarrow> 'o val \<Rightarrow> 'o val \<Rightarrow> 'o val \<Rightarrow> (string \<times> 'o val) list \<Rightarrow> 'o val \<Rightarrow> ('o, 'h, 'e, 'o val) nb" where
  "run_vqe lib L_BFGS_B RY VQE BasicAer QuantumInstance PassManager entanglement qubit_op =
     bind (call lib L_BFGS_B [] [(''maxfun'', Intg 1000), (''factr'', Intg 10), (''iprint'', Intg 10)]) (\<lambda>lbfgs.
     bind (attr lib qubit_op ''num_qubits'') (\<lambda>num_qubits.
     bind (call lib RY [num_qubits, Intg 5] entanglement) (\<lambda>var_form.
     bind (call lib VQE [qubit_op, var_form, lbfgs, Str ''matrix''] []) (\<lambda>vqe_algorithm.
     bind (call_method lib BasicAer ''get_backend'' [Str ''statevector_simulator''] []) (\<lambda>backend.
     bind (call lib PassManager [] []) (\<lambda>pass_manager.
     bind (call lib QuantumInstance [backend] [(''pass_manager'', pass_manager)]) (\<lambda>quantum_instance.
     call_method lib vqe_algorithm ''run'' [quantum_instance] [])))))))"

text \<open>The line printed after each run of the variational solver:
  \<^verbatim>\<open>print("Ground state energy using {}: {}".format(name, results['eigvals'][0]))\<close>.\<close>

definition qm_report :: "('o, 'h, 'e) library \<Rightarrow> string \<Rightarrow> 'o val \<Rightarrow> ('o, 'h, 'e, unit) nb" where
  "qm_report lib name results =
     bind (subscript lib results (Str ''eigvals'')) (\<lambda>eigvals.
     bind (subscript lib eigvals (Intg 0)) (\<lambda>energy.
     py_print ''Ground state energy using {}: {}'' [Str name, energy]))"

definition qm_vqe_body :: "('o, 'h, 'e) library \<Rightarrow> 'o val \<Rightarrow> 'o val \<Rightarrow> 'o val \<Rightarrow> 'o val \<Rightarrow> 'o val \<Rightarrow> 'o val \<Rightarrow> 'o val \<times> string \<Rightarrow> ('o, 'h, 'e, unit) nb" where
  "qm_vqe_body lib L_BFGS_B RY VQE BasicAer QuantumInstance PassManager = (\<lambda>(qubit_op, name).
     bind (run_vqe lib L_BFGS_B RY VQE BasicAer QuantumInstance PassManager
             [(''entanglement'', Str ''full'')] qubit_op) (\<lambda>results.
     qm_report lib name results))"

definition qubit_mappings :: "('o, 'h, 'e) library \<Rightarrow> ('o, 'h, 'e, unit) nb" where
  "qubit_mappings lib =
     bind (invoke lib (ImportModule ''numpy'')) (\<lambda>np.
     bind (invoke lib (ImportFrom ''qiskit'' ''BasicAer'')) (\<lambda>BasicAer.
     bind (invoke lib (ImportFrom ''qiskit.transpiler'' ''PassManager'')) (\<lambda>PassManager.
     bind (invoke lib (ImportFrom ''qiskit.aqua'' ''Operator'')) (\<lambda>Operator.
     bind (invoke lib (ImportFrom ''qiskit.aqua'' ''QuantumInstance'')) (\<lambda>QuantumInstance.
     bind (invoke lib (ImportFrom ''qiskit.aqua'' ''aqua_globals'')) (\<lambda>aqua_globals.
     bind (invoke lib (ImportFrom ''qiskit.aqua.algorithms.adaptive'' ''VQE'')) (\<lambda>VQE.
     bind (invoke lib (ImportFrom ''qiskit.aqua.algorithms.classical'' ''ExactEigensolver'')) (\<lambda>ExactEigensolver.
     bind (invoke lib (ImportFrom ''qiskit.aqua.components.optimizers'' ''L_BFGS_B'')) (\<lambda>L_BFGS_B.
     bind (invoke lib (ImportFrom ''qiskit.aqua.components.variational_forms'' ''RY'')) (\<lambda>RY.
     bind (invoke lib (ImportFrom ''qiskit.chemistry'' ''FermionicOperator'')) (\<lambda>FermionicOperator.
     bind (invoke lib (ImportFrom ''qiskit.chemistry.drivers'' ''PyQuanteDriver'')) (\<lambda>PyQuanteDriver.
     bind (invoke lib (ImportFrom ''qiskit.chemistry.drivers'' ''UnitsType'')) (\<lambda>UnitsType.
     bind (invoke lib (ImportFrom ''qiskit.chemistry.drivers'' ''BasisType'')) (\<lambda>BasisType.
     bind (set_attr lib aqua_globals ''random_seed'' (Intg 50)) (\<lambda>_.
     bind (qm_driver lib PyQuanteDriver UnitsType BasisType) (\<lambda>(h1, h2).
     bind (qm_mappings lib FermionicOperator h1 h2) (\<lambda>(qubitOp_jw, qubitOp_pa, qubitOp_bk).
     (let qubit_ops = [(qubitOp_jw, ''jordan wigner''), (qubitOp_pa, ''parity''),
                       (qubitOp_bk, ''bravyi-kitaev'')]
      in bind (for_each (qm_exact_body lib ExactEigensolver) qubit_ops) (\<lambda>_.
         for_each (qm_vqe_body lib L_BFGS_B RY VQE BasicAer QuantumInstance PassManager)
           qubit_ops)))))))))))))))))))"

section \<open>ParticleHoleTransformation.ipynb\<close>

definition ph_driver :: "('o, 'h, 'e) library \<Rightarrow> 'o val \<Rightarrow> 'o val \<Rightarrow> ('o, 'h, 'e, 'o val) nb" where
  "ph_driver lib PySCFDriver UnitsType =
     bind (attr lib UnitsType ''ANGSTROM'') (\<lambda>angstrom.
     bind (call lib PySCFDriver []
             [(''atom'', Str ''H .0 .0 .0; H .0 .0 0.735''), (''unit'', angstrom),
              (''charge'', Intg 0), (''spin'', Intg 0), (''basis'', Str ''sto3g'')]) (\<lambda>driver.
     call_method lib driver ''run'' [] []))"

definition ph_exact :: "('o, 'h, 'e) library \<Rightarrow> 'o val \<Rightarrow> 'o val \<Rightarrow> 'o val \<Rightarrow> ('o, 'h, 'e, 'o val) nb" where
  "ph_exact lib FermionicOperator ExactEigensolver molecule =
     bind (attr lib molecule ''one_body_integrals'') (\<lambda>h1.
     bind (attr lib molecule ''two_body_integrals'') (\<lambda>h2.
     bind (call lib FermionicOperator [] [(''h1'', h1), (''h2'', h2)]) (\<lambda>ferOp.
     bind (mapping lib ferOp ''JORDAN_WIGNER'') (\<lambda>qubitOp_jw.
     bind (chop lib qubitOp_jw) (\<lambda>_.
     bind (exact_energy lib ExactEigensolver qubitOp_jw) (\<lambda>ret.
     bind (subscript lib ret (Str ''energy'')) (\<lambda>energy.
     bind (py_print ''The exact ground state energy is: {}'' [energy]) (\<lambda>_.
     bind (attr lib molecule ''hf_energy'') (\<lambda>hf_energy.
     bind (attr lib molecule ''nuclear_repulsion_energy'') (\<lambda>nuclear_repulsion_energy.
     bind (minus lib hf_energy nuclear_repulsion_energy) (\<lambda>hf_electronic.
     bind (py_print ''The Hartree Fock Electron Energy is: {}'' [hf_electronic]) (\<lambda>_.
     succeed ferOp))))))))))))"

definition ph_transformed :: "('o, 'h, 'e) library \<Rightarrow> 'o val \<Rightarrow> 'o val \<Rightarrow> ('o, 'h, 'e, 'o val \<times> 'o val) nb" where
  "ph_transformed lib ExactEigensolver ferOp =
     bind (call_method lib ferOp ''particle_hole_transformation'' [] [(''num_particles'', Intg 2)]) (\<lambda>pair.
     bind (unpack2 lib pair) (\<lambda>(newferOp, energy_shift).
     bind (py_print ''Energy shift is: {}'' [energy_shift]) (\<lambda>_.
     bind (mapping lib newferOp ''JORDAN_WIGNER'') (\<lambda>newqubitOp_jw.
     bind (chop lib newqubitOp_jw) (\<lambda>_.
     bind (exact_energy lib ExactEigensolver newqubitOp_jw) (\<lambda>ret.
     bind (subscript lib ret (Str ''energy'')) (\<lambda>energy.
     bind (py_print ''The exact ground state energy in PH basis is {}'' [energy]) (\<lambda>_.
     bind (subscript lib ret (Str ''energy'')) (\<lambda>energy.
     bind (minus lib energy energy_shift) (\<lambda>shifted.
     bind (py_print ''The exact ground state energy in PH basis is {} (with energy_shift)'' [shifted]) (\<lambda>_.
     succeed (newqubitOp_jw, energy_shift))))))))))))"

text \<open>The three lines printed after the run of the variational solver.\<close>

definition eigval0_real :: "('o, 'h, 'e) library \<Rightarrow> 'o val \<Rightarrow> ('o, 'h, 'e, 'o val) nb" where
  "eigval0_real lib results =
     bind (subscript lib results (Str ''eigvals'')) (\<lambda>eigvals.
     bind (subscript lib eigvals (Intg 0)) (\<lambda>eigval.
     attr lib eigval ''real''))"

definition ph_report :: "('o, 'h, 'e) library \<Rightarrow> 'o val \<Rightarrow> 'o val \<Rightarrow> ('o, 'h, 'e, unit) nb" where
  "ph_report lib energy_shift results =
     bind (eigval0_real lib results) (\<lambda>energy.
     bind (py_print ''Minimum value: {}'' [energy]) (\<lambda>_.
     bind (eigval0_real lib results) (\<lambda>energy.
     bind (minus lib energy energy_shift) (\<lambda>shifted.
     bind (py_print ''Minimum value: {}'' [shifted]) (\<lambda>_.
     bind (subscript lib results (Str ''opt_params'')) (\<lambda>opt_params.
     py_print ''Parameters: {}'' [opt_params]))))))"

definition ph_vqe :: "('o, 'h, 'e) library \<Rightarrow> 'o val \<Rightarrow> 'o val \<Rightarrow> 'o val \<Rightarrow> 'o val \<Rightarrow> 'o val \<Rightarrow> 'o val \<Rightarrow> 'o val \<Rightarrow> 'o val \<Rightarrow> ('o, 'h, 'e, unit) nb" where
  "ph_vqe lib L_BFGS_B RY VQE BasicAer QuantumInstance PassManager newqubitOp_jw energy_shift =
     bind (run_vqe lib L_BFGS_B RY VQE BasicAer QuantumInstance PassManager
             [(''entangler_map'', Seq [Seq [Intg 0, Intg 1], Seq [Intg 1, Intg 2], Seq [Intg 2, Intg 3]])]
             newqubitOp_jw) (\<lambda>results.
     ph_report lib energy_shift results)"

definition particle_hole :: "('o, 'h, 'e) library \<Rightarrow> ('o, 'h, 'e, unit) nb" where
  "particle_hole lib =
     bind (invoke lib (ImportModule ''numpy'')) (\<lambda>np.
     bind (invoke lib (ImportFrom ''qiskit'' ''BasicAer'')) (\<lambda>BasicAer.
     bind (invoke lib (ImportFrom ''qiskit.transpiler'' ''PassManager'')) (\<lambda>PassManager.
     bind (invoke lib (ImportFrom ''qiskit.aqua'' ''Operator'')) (\<lambda>Operator.
     bind (invoke lib (ImportFrom ''qiskit.aqua'' ''QuantumInstance'')) (\<lambda>QuantumInstance.
     bind (invoke lib (ImportFrom ''qiskit.aqua.algorithms.adaptive'' ''VQE'')) (\<lambda>VQE.
     bind (invoke lib (ImportFrom ''qiskit.aqua.algorithms.classical'' ''ExactEigensolver'')) (\<lambda>ExactEigensolver.
     bind (invoke lib (ImportFrom ''qiskit.aqua.components.optimizers'' ''L_BFGS_B'')) (\<lambda>L_BFGS_B.
     bind (invoke lib (ImportFrom ''qiskit.aqua.components.variational_forms'' ''RY'')) (\<lambda>RY.
     bind (invoke lib (ImportFrom ''qiskit.chemistry'' ''FermionicOperator'')) (\<lambda>FermionicOperator.
     bind (invoke lib (ImportFrom ''qiskit.chemistry.drivers'' ''PySCFDriver'')) (\<lambda>PySCFDriver.
     bind (invoke lib (ImportFrom ''qiskit.chemistry.drivers'' ''UnitsType'')) (\<lambda>UnitsType.
     bind (ph_driver lib PySCFDriver UnitsType) (\<lambda>molecule.
     bind (ph_exact lib FermionicOperator ExactEigensolver molecule) (\<lambda>ferOp.
     bind (ph_transformed lib ExactEigensolver ferOp) (\<lambda>(newqubitOp_jw, energy_shift).
     ph_vqe lib L_BFGS_B RY VQE BasicAer QuantumInstance PassManager newqubitOp_jw
       energy_shift)))))))))))))))"

section \<open>Runs and what they leave behind\<close>

text \<open>A notebook run starts with nothing printed; it yields the events in order and
  the outcome: \<open>Inr ()\<close> when the last statement has run, \<open>Inl x\<close> when the
  exception \<open>x\<close> reached the top level.\<close>

definition run :: "('o, 'h, 'e, 'a) nb \<Rightarrow> 'h \<Rightarrow> ('o, 'e) event list \<times> (('o, 'e) exn + 'a)" where
  "run m h = (case m (h, []) of ((h', tr), r) \<Rightarrow> (tr, r))"

fun raises :: "('o, 'e) event list \<Rightarrow> ('o, 'e) exn list" where
  "raises [] = []"
| "raises (Raise x # tr) = x # raises tr"
| "raises (ev # tr) = raises tr"

fun printed_values :: "('o, 'e) event list \<Rightarrow> 'o val list" where
  "printed_values [] = []"
| "printed_values (Print fmt args # tr) = args @ printed_values tr"
| "printed_values (ev # tr) = printed_values tr"

text \<open>No exception is handled: a run that completes has raised nothing, and a run that
  fails with \<open>x\<close> has raised \<open>x\<close> and nothing else, as its very last event.\<close>

fun unhandled :: "('o, 'e) event list \<times> (('o, 'e) exn + 'a) \<Rightarrow> bool" where
  "unhandled (tr, Inr a) = (raises tr = [])"
| "unhandled (tr, Inl x) = (tr \<noteq> [] \<and> last tr = Raise x \<and> raises tr = [x])"

definition propagates :: "('o, 'h, 'e, 'a) nb \<Rightarrow> bool" where
  "propagates m \<longleftrightarrow>
     (\<forall>h tr. \<exists>post. snd (fst (m (h, tr))) = tr @ post \<and> unhandled (post, snd (m (h, tr))))"

section \<open>A library to run the notebooks on\<close>

text \<open>
  A stand-in library for concrete runs. An object is named by its class, a bound
  method or enumeration member by its path; the library state counts the operations
  received. The operations selected by \<open>fails\<close> raise.
\<close>

definition toy_answer :: "string op \<Rightarrow> string + string val" where
  "toy_answer p =
     (case p of
        ImportModule m \<Rightarrow> Inr (Obj m)
      | ImportFrom m n \<Rightarrow> Inr (Obj n)
      | GetAttr v n \<Rightarrow>
          (case v of
             Obj c \<Rightarrow>
               if n = ''num_qubits'' then Inr (Intg 4)
               else if n = ''hf_energy'' then Inr (Num (- 1))
               else if n = ''nuclear_repulsion_energy'' then Inr (Num (1 / 2))
               else Inr (Obj (c @ ''.'' @ n))
           | _ \<Rightarrow> Inl ''AttributeError'')
      | SetAttr v n x \<Rightarrow> Inr NoneV
      | Call f args kwargs \<Rightarrow>
          (case f of
             Obj c \<Rightarrow>
               if c = ''PyQuanteDriver.run'' \<or> c = ''PySCFDriver.run'' then Inr (Obj ''QMolecule'')
               else if c = ''FermionicOperator.mapping'' then Inr (Obj ''Operator'')
               else if c = ''FermionicOperator.particle_hole_transformation''
                 then Inr (Seq [Obj ''FermionicOperator'', Num (3 / 2)])
               else if c = ''Operator.to_matrix'' \<or> c = ''Operator.chop'' then Inr NoneV
               else if c = ''Operator.print_operators'' then Inr (Str ''IIII 1'')
               else if c = ''ExactEigensolver.run'' then Inr (Dict [(''energy'', Num (- 2))])
               else if c = ''VQE.run''
                 then Inr (Dict [(''eigvals'', Seq [Cplx (Complex (- 2) 0)]),
                                 (''opt_params'', Seq [Num (1 / 2), Num (1 / 4)])])
               else if c = ''BasicAer.get_backend'' then Inr (Obj ''Backend'')
               else Inr (Obj c)
           | _ \<Rightarrow> Inl ''TypeError'')
      | _ \<Rightarrow> Inl ''TypeError'')"

definition toy_library :: "(string op \<Rightarrow> bool) \<Rightarrow> (string, nat, string) library" where
  "toy_library fails p h = (Suc h, if fails p then Inl ''failed'' else toy_answer p)"

definition parity_mapping :: "string op \<Rightarrow> bool" where
  "parity_mapping p =
     (case p of
        Call f args kwargs \<Rightarrow> map_of kwargs ''map_type'' = Some (Str ''PARITY'')
      | _ \<Rightarrow> False)"

definition never :: "string op \<Rightarrow> bool" where
  "never p = False"

section \<open>Exceptions are never handled\<close>

lemma raises_append: "raises (xs @ ys) = raises xs @ raises ys"
  by (induction xs rule: raises.induct) simp_all

lemma printed_values_append: "printed_values (xs @ ys) = printed_values xs @ printed_values ys"
  by (induction xs rule: printed_values.induct) simp_all

subsection \<open>The statements\<close>

lemma propagates_succeed: "propagates (succeed x)"
  by (simp add: propagates_def succeed_def)

lemma propagates_print: "propagates (py_print fmt args)"
  by (simp add: propagates_def py_print_def)

lemma propagates_builtin: "propagates (builtin r)"
  by (cases r) (simp_all add: propagates_def builtin_def)

lemma propagates_invoke: "propagates (invoke lib p)"
  unfolding propagates_def invoke_def
  by (auto split: prod.splits sum.splits)

text \<open>Sequencing keeps the property: what the first statement left is followed by
  what the second leaves, and the second runs only if the first raised nothing.\<close>

lemma propagates_bind:
  assumes m: "propagates m" and f: "\<And>a. propagates (f a)"
  shows "propagates (bind m f)"
  unfolding propagates_def
proof (intro allI)
  fix h tr
  obtain h1 tr1 r1 where m1: "m (h, tr) = ((h1, tr1), r1)"
    by (metis surj_pair)
  from m obtain post1 where p1: "tr1 = tr @ post1" and u1: "unhandled (post1, r1)"
    unfolding propagates_def using m1 by (metis fst_conv snd_conv)
  show "\<exists>post. snd (fst (bind m f (h, tr))) = tr @ post \<and> unhandled (post, snd (bind m f (h, tr)))"
  proof (cases r1)
    case (Inl x)
    with m1 p1 u1 show ?thesis by (auto simp: bind_def)
  next
    case (Inr a)
    obtain h2 tr2 r2 where m2: "f a (h1, tr1) = ((h2, tr2), r2)"
      by (metis surj_pair)
    from f[of a] obtain post2 where p2: "tr2 = tr1 @ post2" and u2: "unhandled (post2, r2)"
      unfolding propagates_def using m2 by (metis fst_conv snd_conv)
    from Inr u1 have quiet: "raises post1 = []" by simp
    have "unhandled (post1 @ post2, r2)"
      using u2 quiet by (cases r2) (simp_all add: raises_append)
    with m1 m2 Inr p1 p2 show ?thesis by (auto simp: bind_def)
  qed
qed

lemma propagates_case_prod: "(\<And>a b. propagates (f a b)) \<Longrightarrow> propagates (case_prod f p)"
  by (cases p) simp

lemma propagates_for_each: "(\<And>x. propagates (body x)) \<Longrightarrow> propagates (for_each body xs)"
  by (induction xs) (simp_all add: propagates_succeed propagates_bind)

lemmas propagates_intros =
  propagates_succeed propagates_print propagates_builtin propagates_invoke
  propagates_bind propagates_case_prod propagates_for_each

subsection \<open>The expressions\<close>

lemma propagates_attr: "propagates (attr lib v n)"
  by (simp add: attr_def propagates_intros)

lemma propagates_set_attr: "propagates (set_attr lib v n x)"
  by (simp add: set_attr_def propagates_intros)

lemma propagates_subscript: "propagates (subscript lib v k)"
  by (simp add: subscript_def propagates_intros)

lemma propagates_minus: "propagates (minus lib a b)"
  by (simp add: minus_def propagates_intros)

lemma propagates_call: "propagates (call lib f args kwargs)"
  by (simp add: call_def propagates_intros)

lemma propagates_call_method: "propagates (call_method lib v n args kwargs)"
  by (simp add: call_method_def propagates_bind propagates_attr propagates_call)

lemma propagates_unpack2: "propagates (unpack2 lib v)"
  by (simp add: unpack2_def propagates_intros)

lemmas propagates_exprs =
  propagates_attr propagates_set_attr propagates_subscript propagates_minus
  propagates_call propagates_call_method propagates_unpack2

subsection \<open>The cells\<close>

lemma propagates_qm_driver: "propagates (qm_driver lib PyQuanteDriver UnitsType BasisType)"
  unfolding qm_driver_def by (intro propagates_intros propagates_exprs)

lemma propagates_mapping: "propagates (mapping lib ferOp map_type)"
  by (simp add: mapping_def propagates_call_method)

lemma propagates_chop: "propagates (chop lib qubit_op)"
  by (simp add: chop_def propagates_call_method)

lemma propagates_exact_energy: "propagates (exact_energy lib ExactEigensolver qubit_op)"
  unfolding exact_energy_def by (intro propagates_intros propagates_exprs)

lemma propagates_qm_mappings: "propagates (qm_mappings lib FermionicOperator h1 h2)"
  unfolding qm_mappings_def by (intro propagates_intros propagates_exprs propagates_mapping)

lemma propagates_qm_exact_body: "propagates (qm_exact_body lib ExactEigensolver x)"
  unfolding qm_exact_body_def
  by (intro propagates_intros propagates_exprs propagates_chop propagates_exact_energy)

lemma propagates_run_vqe:
  "propagates (run_vqe lib L_BFGS_B RY VQE BasicAer QuantumInstance PassManager ent qubit_op)"
  unfolding run_vqe_def by (intro propagates_intros propagates_exprs)

lemma propagates_qm_report: "propagates (qm_report lib name results)"
  unfolding qm_report_def by (intro propagates_intros propagates_exprs)

lemma propagates_qm_vqe_body:
  "propagates (qm_vqe_body lib L_BFGS_B RY VQE BasicAer QuantumInstance PassManager x)"
  unfolding qm_vqe_body_def
  by (intro propagates_intros propagates_run_vqe propagates_qm_report)

lemma propagates_qubit_mappings: "propagates (qubit_mappings lib)"
  unfolding qubit_mappings_def Let_def
  by (intro propagates_intros propagates_exprs propagates_qm_driver propagates_qm_mappings
        propagates_qm_exact_body propagates_qm_vqe_body)

lemma propagates_ph_driver: "propagates (ph_driver lib PySCFDriver UnitsType)"
  unfolding ph_driver_def by (intro propagates_intros propagates_exprs)

lemma propagates_ph_exact: "propagates (ph_exact lib FermionicOperator ExactEigensolver molecule)"
  unfolding ph_exact_def
  by (intro propagates_intros propagates_exprs propagates_mapping propagates_chop
        propagates_exact_energy)

lemma propagates_ph_transformed: "propagates (ph_transformed lib ExactEigensolver ferOp)"
  unfolding ph_transformed_def
  by (intro propagates_intros propagates_exprs propagates_mapping propagates_chop
        propagates_exact_energy)

lemma propagates_eigval0_real: "propagates (eigval0_real lib results)"
  unfolding eigval0_real_def by (intro propagates_intros propagates_exprs)

lemma propagates_ph_report: "propagates (ph_report lib energy_shift results)"
  unfolding ph_report_def by (intro propagates_intros propagates_exprs propagates_eigval0_real)

lemma propagates_ph_vqe:
  "propagates (ph_vqe lib L_BFGS_B RY VQE BasicAer QuantumInstance PassManager qubit_op energy_shift)"
  unfolding ph_vqe_def by (intro propagates_intros propagates_run_vqe propagates_ph_report)

lemma propagates_particle_hole: "propagates (particle_hole lib)"
  unfolding particle_hole_def
  by (intro propagates_intros propagates_exprs propagates_ph_driver propagates_ph_exact
        propagates_ph_transformed propagates_ph_vqe)

lemma propagates_run: "propagates m \<Longrightarrow> unhandled (run m h)"
  unfolding propagates_def run_def
  by (metis (mono_tags, lifting) append_Nil case_prod_beta prod.collapse)

subsection \<open>The notebooks\<close>

text \<open>
  C7: neither notebook handles an exception. Whatever the library does and whatever
  state it starts in, a run of either notebook that completes has raised nothing; a run
  in which an operation raises (a library operation or a built-in one) ends with that
  exception as its outcome, it is the only exception raised, and it is the last event
  of the run: no later library operation is invoked and no later line is printed.
\<close>

theorem exceptions_reach_top_level:
  "unhandled (run (qubit_mappings lib) h) \<and> unhandled (run (particle_hole lib) h)"
  by (simp add: propagates_run propagates_qubit_mappings propagates_particle_hole)

lemmas nb_defs = succeed_def bind_def invoke_def builtin_def py_print_def
  attr_def set_attr_def subscript_def minus_def call_def call_method_def unpack2_def
  index_list_def

lemmas notebook_defs = qm_driver_def mapping_def qm_mappings_def chop_def exact_energy_def
  qm_exact_body_def run_vqe_def qm_report_def qm_vqe_body_def qubit_mappings_def
  ph_driver_def ph_exact_def ph_transformed_def eigval0_real_def ph_report_def ph_vqe_def
  particle_hole_def

lemmas toy_defs = toy_library_def toy_answer_def parity_mapping_def never_def

lemma unhandled_failed:
  "unhandled R \<Longrightarrow> snd R = Inl x \<Longrightarrow> last (fst R) = Raise x \<and> raises (fst R) = [x]"
  by (cases R) simp

text \<open>
  C7, on a run: with a library whose \<^verbatim>\<open>mapping(map_type='PARITY', ...)\<close> raises,
  QubitMappings.ipynb ends with that exception right after the call; the Bravyi-Kitaev
  mapping, the solvers and every \<^verbatim>\<open>print\<close> are never reached.
\<close>

theorem exceptions_reach_top_level_witness:
  "snd (run (qubit_mappings (toy_library parity_mapping)) 0) = Inl (Library ''failed'')
   \<and> last (fst (run (qubit_mappings (toy_library parity_mapping)) 0)) = Raise (Library ''failed'')
   \<and> raises (fst (run (qubit_mappings (toy_library parity_mapping)) 0)) = [Library ''failed'']
   \<and> printed_values (fst (run (qubit_mappings (toy_library parity_mapping)) 0)) = []"
proof -
  let ?R = "run (qubit_mappings (toy_library parity_mapping)) 0"
  have outcome: "snd ?R = Inl (Library ''failed'')"
    by (simp add: run_def nb_defs notebook_defs toy_defs)
  have silent: "printed_values (fst ?R) = []"
    by (simp add: run_def nb_defs notebook_defs toy_defs)
  have "unhandled ?R"
    by (rule conjunct1[OF exceptions_reach_top_level])
  then have last_event: "last (fst ?R) = Raise (Library ''failed'') \<and> raises (fst ?R) = [Library ''failed'']"
    using outcome by (rule unhandled_failed)
  show ?thesis
    by (intro conjI outcome silent conjunct1[OF last_event] conjunct2[OF last_event])
qed

section \<open>What is printed after a run of the variational solver\<close>

lemma qm_report_prints:
  "map_of d ''eigvals'' = Some (Seq (eigval # rest)) \<Longrightarrow>
   qm_report lib name (Dict d) (h, tr) =
     ((h, tr @ [Print ''Ground state energy using {}: {}'' [Str name, eigval]]), Inr ())"
  by (simp add: qm_report_def nb_defs)

lemma eigval0_real_value:
  "map_of d ''eigvals'' = Some (Seq (eigval # rest)) \<Longrightarrow> eigval \<in> {Num x, Cplx (Complex x y)} \<Longrightarrow>
   eigval0_real lib (Dict d) (h, tr) = ((h, tr), Inr (Num x))"
  by (auto simp add: eigval0_real_def nb_defs)

lemma ph_report_prints:
  "map_of d ''eigvals'' = Some (Seq (eigval # rest)) \<Longrightarrow> eigval \<in> {Num x, Cplx (Complex x y)} \<Longrightarrow>
   map_of d ''opt_params'' = Some opt_params \<Longrightarrow>
   ph_report lib (Num shift) (Dict d) (h, tr) =
     ((h, tr @ [Print ''Minimum value: {}'' [Num x], Print ''Minimum value: {}'' [Num (x - shift)],
                Print ''Parameters: {}'' [opt_params]]), Inr ())"
  by (simp add: ph_report_def eigval0_real_value bind_def py_print_def minus_def subscript_def builtin_def)

text \<open>
  C8, as amended: what follows a run of the variational solver that returns a
  \<^verbatim>\<open>dict\<close> whose \<^verbatim>\<open>'eigvals'\<close> entry is a non-empty sequence. In
  QubitMappings.ipynb the loop body then prints one line, the name of the mapping and
  \<^verbatim>\<open>results['eigvals'][0]\<close>, and nothing else. In ParticleHoleTransformation.ipynb,
  when that eigenvalue is a float or complex number with real part \<open>x\<close>, the
  \<^verbatim>\<open>'opt_params'\<close> entry exists and \<^verbatim>\<open>energy_shift\<close> is a float, the cell
  prints three lines: \<open>x\<close>, \<open>x - energy_shift\<close> and the parameter vector.
\<close>

theorem vqe_reporting:
  assumes "map_of d ''eigvals'' = Some (Seq (eigval # rest))"
  shows "(run_vqe lib L R V B Q P [(''entanglement'', Str ''full'')] qubit_op s = ((h, tr), Inr (Dict d)) \<longrightarrow>
            qm_vqe_body lib L R V B Q P (qubit_op, name) s =
              ((h, tr @ [Print ''Ground state energy using {}: {}'' [Str name, eigval]]), Inr ()))
       \<and> (eigval \<in> {Num x, Cplx (Complex x y)} \<and> map_of d ''opt_params'' = Some opt_params \<and>
          run_vqe lib L R V B Q P
            [(''entangler_map'', Seq [Seq [Intg 0, Intg 1], Seq [Intg 1, Intg 2], Seq [Intg 2, Intg 3]])]
            qubit_op s = ((h, tr), Inr (Dict d)) \<longrightarrow>
            ph_vqe lib L R V B Q P qubit_op (Num shift) s =
              ((h, tr @ [Print ''Minimum value: {}'' [Num x], Print ''Minimum value: {}'' [Num (x - shift)],
                         Print ''Parameters: {}'' [opt_params]]), Inr ()))"
proof (intro conjI impI)
  assume "run_vqe lib L R V B Q P [(''entanglement'', Str ''full'')] qubit_op s = ((h, tr), Inr (Dict d))"
  then show "qm_vqe_body lib L R V B Q P (qubit_op, name) s =
      ((h, tr @ [Print ''Ground state energy using {}: {}'' [Str name, eigval]]), Inr ())"
    by (simp add: qm_vqe_body_def bind_def qm_report_prints[OF assms])
next
  assume a: "eigval \<in> {Num x, Cplx (Complex x y)} \<and> map_of d ''opt_params'' = Some opt_params \<and>
          run_vqe lib L R V B Q P
            [(''entangler_map'', Seq [Seq [Intg 0, Intg 1], Seq [Intg 1, Intg 2], Seq [Intg 2, Intg 3]])]
            qubit_op s = ((h, tr), Inr (Dict d))"
  then have e: "eigval \<in> {Num x, Cplx (Complex x y)}"
    and p: "map_of d ''opt_params'' = Some opt_params"
    by simp_all
  have "ph_report lib (Num shift) (Dict d) (h, tr) =
     ((h, tr @ [Print ''Minimum value: {}'' [Num x], Print ''Minimum value: {}'' [Num (x - shift)],
                Print ''Parameters: {}'' [opt_params]]), Inr ())"
    by (rule ph_report_prints[OF assms e p])
  with a show "ph_vqe lib L R V B Q P qubit_op (Num shift) s =
              ((h, tr @ [Print ''Minimum value: {}'' [Num x], Print ''Minimum value: {}'' [Num (x - shift)],
                         Print ''Parameters: {}'' [opt_params]]), Inr ())"
    by (simp add: ph_vqe_def bind_def)
qed

lemma toy_run_vqe:
  "snd (run_vqe (toy_library never) (Obj ''L_BFGS_B'') (Obj ''RY'') (Obj ''VQE'') (Obj ''BasicAer'')
          (Obj ''QuantumInstance'') (Obj ''PassManager'') ent (Obj ''Operator'') (0, []))
     = Inr (Dict [(''eigvals'', Seq [Cplx (Complex (- 2) 0)]),
                  (''opt_params'', Seq [Num (1 / 2), Num (1 / 4)])])
   \<and> printed_values (snd (fst (run_vqe (toy_library never) (Obj ''L_BFGS_B'') (Obj ''RY'') (Obj ''VQE'') (Obj ''BasicAer'')
          (Obj ''QuantumInstance'') (Obj ''PassManager'') ent (Obj ''Operator'') (0, [])))) = []"
  by (simp add: run_vqe_def nb_defs toy_defs)

text \<open>
  C8, as amended, on a run: with the stand-in library, whose solver returns the
  eigenvalue \<open>-2 + 0j\<close> and the parameters \<open>[0.5, 0.25]\<close>, the loop body of
  QubitMappings.ipynb prints the name and the eigenvalue, and the cell of
  ParticleHoleTransformation.ipynb prints \<open>-2\<close>, \<open>-2 - 1.5\<close> and the parameters.
\<close>

theorem vqe_reporting_witness:
  "printed_values (snd (fst (qm_vqe_body (toy_library never) (Obj ''L_BFGS_B'') (Obj ''RY'') (Obj ''VQE'')
      (Obj ''BasicAer'') (Obj ''QuantumInstance'') (Obj ''PassManager'') (Obj ''Operator'', ''parity'') (0, []))))
     = [Str ''parity'', Cplx (Complex (- 2) 0)]
   \<and> printed_values (snd (fst (ph_vqe (toy_library never) (Obj ''L_BFGS_B'') (Obj ''RY'') (Obj ''VQE'')
      (Obj ''BasicAer'') (Obj ''QuantumInstance'') (Obj ''PassManager'') (Obj ''Operator'') (Num (3 / 2)) (0, []))))
     = [Num (- 2), Num (- 2 - 3 / 2), Seq [Num (1 / 2), Num (1 / 4)]]"
proof -
  let ?d = "[(''eigvals'', Seq [Cplx (Complex (- 2) 0)]), (''opt_params'', Seq [Num (1 / 2), Num (1 / 4)])]
              :: (string \<times> string val) list"
  let ?go = "\<lambda>ent. run_vqe (toy_library never) (Obj ''L_BFGS_B'') (Obj ''RY'') (Obj ''VQE'') (Obj ''BasicAer'')
          (Obj ''QuantumInstance'') (Obj ''PassManager'') ent (Obj ''Operator'') (0, [])"
  have eigvals: "map_of ?d ''eigvals'' = Some (Seq (Cplx (Complex (- 2) 0) # []))"
    by simp
  have params: "map_of ?d ''opt_params'' = Some (Seq [Num (1 / 2), Num (1 / 4)])"
    by simp
  have ran: "?go ent = ((fst (fst (?go ent)), snd (fst (?go ent))), Inr (Dict ?d))" for ent
    using toy_run_vqe[of ent] by (metis prod.collapse)
  have quiet: "printed_values (snd (fst (?go ent))) = []" for ent
    using toy_run_vqe[of ent] by simp
  note inst = vqe_reporting[OF eigvals, of "toy_library never" "Obj ''L_BFGS_B''" "Obj ''RY''" "Obj ''VQE''"
        "Obj ''BasicAer''" "Obj ''QuantumInstance''" "Obj ''PassManager''" "Obj ''Operator''" "(0, [])"]
  have qm: "qm_vqe_body (toy_library never) (Obj ''L_BFGS_B'') (Obj ''RY'') (Obj ''VQE'')
      (Obj ''BasicAer'') (Obj ''QuantumInstance'') (Obj ''PassManager'') (Obj ''Operator'', ''parity'') (0, [])
      = ((fst (fst (?go [(''entanglement'', Str ''full'')])),
          snd (fst (?go [(''entanglement'', Str ''full'')]))
            @ [Print ''Ground state energy using {}: {}'' [Str ''parity'', Cplx (Complex (- 2) 0)]]), Inr ())"
    using inst ran by blast
  let ?em = "[(''entangler_map'', Seq [Seq [Intg 0, Intg 1], Seq [Intg 1, Intg 2], Seq [Intg 2, Intg 3]])]
               :: (string \<times> string val) list"
  have ph: "ph_vqe (toy_library never) (Obj ''L_BFGS_B'') (Obj ''RY'') (Obj ''VQE'')
      (Obj ''BasicAer'') (Obj ''QuantumInstance'') (Obj ''PassManager'') (Obj ''Operator'') (Num (3 / 2)) (0, [])
      = ((fst (fst (?go ?em)), snd (fst (?go ?em))
            @ [Print ''Minimum value: {}'' [Num (- 2)], Print ''Minimum value: {}'' [Num (- 2 - 3 / 2)],
               Print ''Parameters: {}'' [Seq [Num (1 / 2), Num (1 / 4)]]]), Inr ())"
    using inst[of _ _ _ "- 2" 0 "Seq [Num (1 / 2), Num (1 / 4)]" "3 / 2"] ran[of ?em] params by blast
  show ?thesis
    unfolding qm ph by (simp add: printed_values_append quiet)
qed

text \<open>
  C8, as stated, fails on QubitMappings.ipynb: with the stand-in library the notebook
  runs to its end, the variational solver returns the parameters \<open>[0.5, 0.25]\<close> three
  times, and the values printed are the mapping names, the operator texts and the
  energies only; the parameter vector is never printed.
\<close>

theorem qubit_mappings_prints_no_parameters:
  "snd (run (qubit_mappings (toy_library never)) 0) = Inr ()
   \<and> printed_values (fst (run (qubit_mappings (toy_library never)) 0)) =
       [Str ''jordan wigner'', Str ''IIII 1'', Str ''jordan wigner'', Num (- 2),
        Str ''parity'', Str ''IIII 1'', Str ''parity'', Num (- 2),
        Str ''bravyi-kitaev'', Str ''IIII 1'', Str ''bravyi-kitaev'', Num (- 2),
        Str ''jordan wigner'', Cplx (Complex (- 2) 0),
        Str ''parity'', Cplx (Complex (- 2) 0),
        Str ''bravyi-kitaev'', Cplx (Complex (- 2) 0)]
   \<and> Seq [Num (1 / 2), Num (1 / 4)]
       \<notin> set (printed_values (fst (run (qubit_mappings (toy_library never)) 0)))"
proof -
  let ?R = "run (qubit_mappings (toy_library never)) 0"
  have completes: "snd ?R = Inr ()"
    by (simp add: run_def nb_defs notebook_defs toy_defs)
  have lines: "printed_values (fst ?R) =
       [Str ''jordan wigner'', Str ''IIII 1'', Str ''jordan wigner'', Num (- 2),
        Str ''parity'', Str ''IIII 1'', Str ''parity'', Num (- 2),
        Str ''bravyi-kitaev'', Str ''IIII 1'', Str ''bravyi-kitaev'', Num (- 2),
        Str ''jordan wigner'', Cplx (Complex (- 2) 0),
        Str ''parity'', Cplx (Complex (- 2) 0),
        Str ''bravyi-kitaev'', Cplx (Complex (- 2) 0)]"
    by (simp add: run_def nb_defs notebook_defs toy_defs)
  have absent: "Seq [Num (1 / 2), Num (1 / 4)] \<notin> set (printed_values (fst ?R))"
    unfolding lines by simp
  show ?thesis
    by (intro conjI completes lines absent)
qed

end
